theory Spec2Isabelle
  imports Main "HOL-Library.Multiset"
begin

section \<open>Values exchanged with the remote service\<close>

text \<open>
  The program (\<^verbatim>\<open>src/bulk_filigrane/main.py\<close>) talks to a watermarking service over
  HTTP and decodes its answers with \<^verbatim>\<open>r.json()\<close>. A decoded answer is any JSON value;
  Python's \<^verbatim>\<open>None\<close> is \<open>JNull\<close>. Numbers are kept as integers: the program only
  ever tests a decoded value for truth.
\<close>

datatype json =
    JNull
  | JBool bool
  | JNum int
  | JStr string
  | JList "json list"
  | JObj "(string \<times> json) list"

text \<open>Python's truth value of a decoded value, as \<^verbatim>\<open>not url\<close> reads it.\<close>

fun truthy :: "json \<Rightarrow> bool" where
  "truthy JNull = False"
| "truthy (JBool b) = b"
| "truthy (JNum n) = (n \<noteq> 0)"
| "truthy (JStr s) = (s \<noteq> [])"
| "truthy (JList xs) = (xs \<noteq> [])"
| "truthy (JObj kvs) = (kvs \<noteq> [])"

text \<open>The name Python gives the type of a decoded value (used in an error message).\<close>

fun type_name :: "json \<Rightarrow> string" where
  "type_name JNull = ''NoneType''"
| "type_name (JBool b) = ''bool''"
| "type_name (JNum n) = ''int''"
| "type_name (JStr s) = ''str''"
| "type_name (JList xs) = ''list''"
| "type_name (JObj kvs) = ''dict''"

text \<open>
  An exception is its class name and the text \<^verbatim>\<open>str(e)\<close> that the program formats
  into its messages.
\<close>

datatype exn = Exn string string

fun str_exn :: "exn \<Rightarrow> string" where
  "str_exn (Exn cls m) = m"

text \<open>
  A name between single quotes, as the message of an \<^verbatim>\<open>AttributeError\<close> prints the
  name of a type and of an attribute.
\<close>

definition quoted :: "string \<Rightarrow> string" where
  "quoted s = CHR 0x27 # s @ [CHR 0x27]"

text \<open>
  \<^verbatim>\<open>repr\<close> of a string, which \<^verbatim>\<open>str\<close> of a \<^verbatim>\<open>KeyError\<close> and of an \<^verbatim>\<open>OSError\<close>
  print the key and the file name with. The string stands between single quotes, or
  between double quotes when it holds a single quote and no double quote; a backslash and
  the quote in use are escaped with a backslash; tab, newline and carriage return are
  written \<^verbatim>\<open>\t\<close>, \<^verbatim>\<open>\n\<close>, \<^verbatim>\<open>\r\<close> and every other control character as
  \<^verbatim>\<open>\xhh\<close>. Characters above \<open>0x7F\<close> are the bytes of printable characters and are kept.
  \<open>escape_codes\<close> gives what follows the backslash.
\<close>

definition escape_codes :: "(char \<times> string) list" where
  "escape_codes =
     [(CHR 0x00, ''x00''), (CHR 0x01, ''x01''), (CHR 0x02, ''x02''), (CHR 0x03, ''x03''),
      (CHR 0x04, ''x04''), (CHR 0x05, ''x05''), (CHR 0x06, ''x06''), (CHR 0x07, ''x07''),
      (CHR 0x08, ''x08''), (CHR 0x09, ''t''), (CHR 0x0A, ''n''), (CHR 0x0B, ''x0b''),
      (CHR 0x0C, ''x0c''), (CHR 0x0D, ''r''), (CHR 0x0E, ''x0e''), (CHR 0x0F, ''x0f''),
      (CHR 0x10, ''x10''), (CHR 0x11, ''x11''), (CHR 0x12, ''x12''), (CHR 0x13, ''x13''),
      (CHR 0x14, ''x14''), (CHR 0x15, ''x15''), (CHR 0x16, ''x16''), (CHR 0x17, ''x17''),
      (CHR 0x18, ''x18''), (CHR 0x19, ''x19''), (CHR 0x1A, ''x1a''), (CHR 0x1B, ''x1b''),
      (CHR 0x1C, ''x1c''), (CHR 0x1D, ''x1d''), (CHR 0x1E, ''x1e''), (CHR 0x1F, ''x1f''),
      (CHR 0x7F, ''x7f'')]"

definition repr_char :: "char \<Rightarrow> char \<Rightarrow> string" where
  "repr_char q c =
     (if c = q \<or> c = CHR 0x5C then [CHR 0x5C, c]
      else case map_of escape_codes c of
             Some code \<Rightarrow> CHR 0x5C # code
           | None \<Rightarrow> [c])"

definition py_repr :: "string \<Rightarrow> string" where
  "py_repr s =
     (let q = (if CHR 0x27 \<in> set s \<and> CHR 0x22 \<notin> set s then CHR 0x22 else CHR 0x27)
      in q # concat (map (repr_char q) s) @ [q])"

text \<open>
  What \<^verbatim>\<open>requests.get\<close> and \<^verbatim>\<open>requests.post\<close> give back: they raise, or they
  return a response. Of a response the program uses \<^verbatim>\<open>raise_for_status()\<close>
  (\<open>status_error\<close> is the message of the error it raises, if it raises),
  \<^verbatim>\<open>json()\<close> (\<open>Inl\<close> the message of the decoding error) and \<^verbatim>\<open>content\<close>.
\<close>

record response =
  status_error :: "string option"
  json_body :: "string + json"
  content :: string

datatype reply = Raises exn | Reply response

section \<open>Paths and file extensions\<close>

text \<open>
  A path is the string that \<^verbatim>\<open>str\<close> gives for a \<^verbatim>\<open>Path\<close> object (POSIX flavour).
\<close>

type_synonym path = string

text \<open>\<^verbatim>\<open>sep.join(parts)\<close>, used for paths and for the report's \<^verbatim>\<open>",".join(names)\<close>.\<close>

fun join :: "string \<Rightarrow> string list \<Rightarrow> string" where
  "join sep [] = []"
| "join sep [x] = x"
| "join sep (x # y # ys) = x @ sep @ join sep (y # ys)"

text \<open>\<^verbatim>\<open>s.split(c)\<close>: the pieces of a string between the occurrences of a character.\<close>

fun split_on :: "char \<Rightarrow> string \<Rightarrow> string list" where
  "split_on c [] = [[]]"
| "split_on c (x # xs) =
     (if x = c then [] # split_on c xs
      else (x # hd (split_on c xs)) # tl (split_on c xs))"

text \<open>\<^verbatim>\<open>Path.name\<close>: the final component of a path.\<close>

definition path_name :: "path \<Rightarrow> string" where
  "path_name p = rev (takeWhile (\<lambda>c. c \<noteq> CHR ''/'') (rev p))"

text \<open>
  \<^verbatim>\<open>Path.suffix\<close>: the name from its last dot on, when that dot is neither the first
  nor the last character of the name; the empty string otherwise.
\<close>

definition path_suffix :: "path \<Rightarrow> string" where
  "path_suffix p =
     (let name = path_name p;
          after = takeWhile (\<lambda>c. c \<noteq> CHR ''.'') (rev name)
      in if CHR ''.'' \<in> set name \<and> after \<noteq> [] \<and> length after + 1 < length name
         then CHR ''.'' # rev after
         else [])"

text \<open>\<^verbatim>\<open>str.lower\<close> on one ASCII character.\<close>

definition lower_char :: "char \<Rightarrow> char" where
  "lower_char c =
     (case map_of (zip ''ABCDEFGHIJKLMNOPQRSTUVWXYZ'' ''abcdefghijklmnopqrstuvwxyz'') c of
        Some l \<Rightarrow> l
      | None \<Rightarrow> c)"

text \<open>\<^verbatim>\<open>file.suffix.lower().replace(".", "")\<close>\<close>

definition get_file_ext :: "path \<Rightarrow> string" where
  "get_file_ext file = filter (\<lambda>c. c \<noteq> CHR ''.'') (map lower_char (path_suffix file))"

definition CONTENT_TYPES :: "string \<rightharpoonup> string" where
  "CONTENT_TYPES = map_of
     [(''jpg'', ''image/jpeg''),
      (''jpeg'', ''image/jpeg''),
      (''png'', ''image/png''),
      (''heic'', ''image/heic''),
      (''pdf'', ''application/pdf'')]"

text \<open>
  \<^verbatim>\<open>posixpath.join\<close> of two strings: an absolute right operand replaces the left one.
\<close>

definition posix_join :: "string \<Rightarrow> string \<Rightarrow> string" where
  "posix_join d n =
     (if take 1 n = ''/'' then n
      else if d = [] \<or> last d = CHR ''/'' then d @ n
      else d @ ''/'' @ n)"

text \<open>
  The root of a path string: none, one slash, or two slashes when the string starts
  with exactly two.
\<close>

definition path_root :: "string \<Rightarrow> string" where
  "path_root p =
     (if take 1 p \<noteq> ''/'' then []
      else if take 2 p = ''//'' \<and> take 3 p \<noteq> ''///'' then ''//''
      else ''/'')"

text \<open>
  \<^verbatim>\<open>str(Path(p))\<close>: the root, then the components that are neither empty nor a single
  dot, joined by slashes; a path with nothing left is written as a dot.
\<close>

definition path_str :: "string \<Rightarrow> path" where
  "path_str p =
     (let root = path_root p;
          parts = filter (\<lambda>x. x \<noteq> [] \<and> x \<noteq> ''.'')
                    (split_on CHR ''/'' (drop (length root) p));
          s = root @ join ''/'' parts
      in if s = [] then ''.'' else s)"

text \<open>\<^verbatim>\<open>output_dir / name\<close>: the operands are joined, and the result is parsed as a path.\<close>

definition path_join :: "path \<Rightarrow> string \<Rightarrow> path" where
  "path_join d n = path_str (posix_join d n)"

section \<open>The environment and the state of the world\<close>

text \<open>
  Everything the program cannot decide itself is a field of the environment: whether a
  file opens, what the service answers to the upload (given the parts and the watermark),
  to the \<open>i\<close>-th poll of a token and to the download of a token, whether the output file
  can be opened and written, and the order in which the thread pool's futures complete.
  The service's URLs are functions of the token alone, so the token stands for the URL.
\<close>

record env =
  open_rb :: "path \<Rightarrow> string option"
  close_raises :: "path \<Rightarrow> bool"
  post_files :: "(string \<times> path \<times> string) list \<Rightarrow> string \<Rightarrow> reply"
  get_url :: "json \<Rightarrow> nat \<Rightarrow> reply"
  get_document :: "json \<Rightarrow> reply"
  open_wb :: "path \<Rightarrow> string option"
  write_error :: "path \<Rightarrow> string option"
  as_completed :: "path list \<Rightarrow> path list"

text \<open>
  The calls a job makes, in order: the upload request, each poll attempt, each sleep
  (with its length) and the download request.
\<close>

datatype event =
    EvPost "string list" string
  | EvPoll json
  | EvSleep nat
  | EvFetch json

text \<open>
  The state: the contents of the files, the file handles that are open (one entry per
  handle, named by the path it was opened on) and the calls made so far.
\<close>

record world =
  fs :: "path \<rightharpoonup> string"
  handles :: "path multiset"
  trace :: "event list"

definition emit :: "event \<Rightarrow> world \<Rightarrow> world" where
  "emit ev w = w\<lparr>trace := trace w @ [ev]\<rparr>"

text \<open>The number of poll attempts and of download requests made so far.\<close>

fun is_poll :: "event \<Rightarrow> bool" where
  "is_poll (EvPoll token) = True"
| "is_poll ev = False"

fun is_fetch :: "event \<Rightarrow> bool" where
  "is_fetch (EvFetch token) = True"
| "is_fetch ev = False"

definition poll_calls :: "world \<Rightarrow> nat" where
  "poll_calls w = length (filter is_poll (trace w))"

definition fetch_calls :: "world \<Rightarrow> nat" where
  "fetch_calls w = length (filter is_fetch (trace w))"

section \<open>poll_until_ready\<close>

text \<open>
  One pass through the body of the \<^verbatim>\<open>try\<close>: \<open>Some v\<close> when the pass returns
  \<^verbatim>\<open>data["url"]\<close>, \<open>None\<close> when it falls through to the sleep. Every exception is
  swallowed, and so is an answer that is not a dictionary: \<^verbatim>\<open>"url" in data\<close> is then
  false or a \<^verbatim>\<open>TypeError\<close>, or it is true (a list or a string holding "url") and
  \<^verbatim>\<open>data["url"]\<close> is the \<^verbatim>\<open>TypeError\<close>.
\<close>

definition poll_attempt :: "reply \<Rightarrow> json option" where
  "poll_attempt rp =
     (case rp of
        Raises ex \<Rightarrow> None
      | Reply r \<Rightarrow>
          (case status_error r of
             Some m \<Rightarrow> None
           | None \<Rightarrow>
               (case json_body r of
                  Inl m \<Rightarrow> None
                | Inr (JObj kvs) \<Rightarrow> map_of kvs ''url''
                | Inr other \<Rightarrow> None)))"

text \<open>
  The \<^verbatim>\<open>for\<close> loop with \<open>n\<close> passes left; \<open>i\<close> counts the attempts made. A pass that
  does not return sleeps 3 seconds, also the last one.
\<close>

fun poll_loop :: "env \<Rightarrow> json \<Rightarrow> nat \<Rightarrow> nat \<Rightarrow> world \<Rightarrow> json \<times> world" where
  "poll_loop e token 0 i w = (JNull, w)"
| "poll_loop e token (Suc n) i w =
     (let w1 = emit (EvPoll token) w
      in case poll_attempt (get_url e token i) of
           Some v \<Rightarrow> (v, w1)
         | None \<Rightarrow> poll_loop e token n (Suc i) (emit (EvSleep 3) w1))"

text \<open>\<^verbatim>\<open>range(timeout_sec // 3)\<close> is empty for a negative bound.\<close>

text \<open>The first \<open>n\<close> poll attempts on a token all fall through to the sleep.\<close>

definition never_ready :: "env \<Rightarrow> json \<Rightarrow> nat \<Rightarrow> bool" where
  "never_ready e token n = list_all (\<lambda>i. poll_attempt (get_url e token i) = None) [0..<n]"

definition poll_until_ready :: "env \<Rightarrow> json \<Rightarrow> int \<Rightarrow> world \<Rightarrow> json \<times> world" where
  "poll_until_ready e token timeout_sec w = poll_loop e token (nat (timeout_sec div 3)) 0 w"

section \<open>download_document\<close>

text \<open>
  The request and \<^verbatim>\<open>raise_for_status\<close> are guarded and give \<^verbatim>\<open>False\<close>; opening and
  writing the output file are not guarded, so their errors leave the function.
  Opening with mode \<^verbatim>\<open>"wb"\<close> empties the file before anything is written.
\<close>

definition download_document :: "env \<Rightarrow> json \<Rightarrow> path \<Rightarrow> world \<Rightarrow> (exn + bool) \<times> world" where
  "download_document e token out_path w =
     (let w1 = emit (EvFetch token) w
      in case get_document e token of
           Raises ex \<Rightarrow> (Inr False, w1)
         | Reply r \<Rightarrow>
             (case status_error r of
                Some m \<Rightarrow> (Inr False, w1)
              | None \<Rightarrow>
                  (case open_wb e out_path of
                     Some m \<Rightarrow> (Inl (Exn ''OSError'' m), w1)
                   | None \<Rightarrow>
                       (let w2 = w1\<lparr>fs := (fs w1)(out_path \<mapsto> [])\<rparr>
                        in case write_error e out_path of
                             Some m \<Rightarrow> (Inl (Exn ''OSError'' m), w2)
                           | None \<Rightarrow>
                               (Inr True, w2\<lparr>fs := (fs w2)(out_path \<mapsto> content r)\<rparr>)))))"

text \<open>The download request fails: a transport error or an error status.\<close>

definition fetch_fails :: "reply \<Rightarrow> bool" where
  "fetch_fails rp = (case rp of Raises ex \<Rightarrow> True | Reply r \<Rightarrow> status_error r \<noteq> None)"

section \<open>upload_files\<close>

text \<open>
  The \<^verbatim>\<open>for\<close> loop of the \<^verbatim>\<open>try\<close> block. It returns the payload or the exception
  that stopped it, together with \<^verbatim>\<open>file_handles\<close> as it stands then. A handle is
  appended before the content type is looked up, so it is in the list when the lookup
  raises \<^verbatim>\<open>KeyError\<close>.
\<close>

fun open_files ::
  "env \<Rightarrow> path list \<Rightarrow> (string \<times> path \<times> string) list \<Rightarrow> path list \<Rightarrow> world
     \<Rightarrow> (exn + (string \<times> path \<times> string) list) \<times> path list \<times> world" where
  "open_files e [] payload file_handles w = (Inr payload, file_handles, w)"
| "open_files e (file # rest) payload file_handles w =
     (let ext = get_file_ext file
      in case open_rb e file of
           Some m \<Rightarrow> (Inl (Exn ''OSError'' m), file_handles, w)
         | None \<Rightarrow>
             (let w1 = w\<lparr>handles := add_mset file (handles w)\<rparr>;
                  file_handles1 = file_handles @ [file]
              in case CONTENT_TYPES ext of
                   None \<Rightarrow> (Inl (Exn ''KeyError'' (py_repr ext)), file_handles1, w1)
                 | Some ct \<Rightarrow>
                     open_files e rest (payload @ [(path_name file, file, ct)]) file_handles1 w1))"

text \<open>
  \<^verbatim>\<open>fh.close()\<close> inside its own \<^verbatim>\<open>try\<close>: the handle is released, and an error of
  \<^verbatim>\<open>close\<close> is reported to the caller of \<open>fh_close\<close>, which drops it.
\<close>

definition fh_close :: "env \<Rightarrow> path \<Rightarrow> world \<Rightarrow> (exn + unit) \<times> world" where
  "fh_close e fh w =
     (if close_raises e fh then Inl (Exn ''OSError'' ''close'') else Inr (),
      w\<lparr>handles := handles w - {#fh#}\<rparr>)"

text \<open>The \<^verbatim>\<open>finally\<close> block.\<close>

fun close_all :: "env \<Rightarrow> path list \<Rightarrow> world \<Rightarrow> world" where
  "close_all e [] w = w"
| "close_all e (fh # rest) w =
     (case fh_close e fh w of
        (Inl ex, w1) \<Rightarrow> close_all e rest w1
      | (Inr u, w1) \<Rightarrow> close_all e rest w1)"

text \<open>
  \<^verbatim>\<open>r.json().get("token")\<close>: the value under the key, \<^verbatim>\<open>None\<close> when the dictionary
  has no such key, an \<^verbatim>\<open>AttributeError\<close> when the answer is not a dictionary.
\<close>

definition get_token :: "json \<Rightarrow> exn + json" where
  "get_token d =
     (case d of
        JObj kvs \<Rightarrow> (case map_of kvs ''token'' of Some v \<Rightarrow> Inr v | None \<Rightarrow> Inr JNull)
      | other \<Rightarrow>
          Inl (Exn ''AttributeError''
                 (quoted (type_name other) @ '' object has no attribute '' @ quoted ''get'')))"

text \<open>The request of the \<^verbatim>\<open>try\<close> block, after the loop.\<close>

definition post_request :: "env \<Rightarrow> (string \<times> path \<times> string) list \<Rightarrow> string \<Rightarrow> exn + json" where
  "post_request e payload watermark =
     (case post_files e payload watermark of
        Raises ex \<Rightarrow> Inl ex
      | Reply r \<Rightarrow>
          (case status_error r of
             Some m \<Rightarrow> Inl (Exn ''HTTPError'' m)
           | None \<Rightarrow>
               (case json_body r of
                  Inl m \<Rightarrow> Inl (Exn ''JSONDecodeError'' m)
                | Inr d \<Rightarrow> get_token d)))"

text \<open>
  \<^verbatim>\<open>upload_files\<close>: \<open>Inl\<close> is the exception re-raised by \<^verbatim>\<open>raise e\<close>, \<open>Inr\<close> the
  returned token (possibly \<open>JNull\<close>). The \<^verbatim>\<open>finally\<close> block runs on both paths.
\<close>

definition upload_files :: "env \<Rightarrow> path list \<Rightarrow> string \<Rightarrow> world \<Rightarrow> (exn + json) \<times> world" where
  "upload_files e files watermark w =
     (case open_files e files [] [] w of
        (Inl ex, file_handles, w1) \<Rightarrow> (Inl ex, close_all e file_handles w1)
      | (Inr payload, file_handles, w1) \<Rightarrow>
          (post_request e payload watermark,
           close_all e file_handles (emit (EvPost (map fst payload) watermark) w1)))"

section \<open>process_files\<close>

text \<open>
  The result dictionary. Its keys \<^verbatim>\<open>"success"\<close> and \<^verbatim>\<open>"msg"\<close> are in every
  dictionary the program builds; \<^verbatim>\<open>"files"\<close> and \<^verbatim>\<open>"file"\<close> are not, so each is
  an optional field: \<open>None\<close> is the missing key, and \<open>r_file = Some ()\<close> is the key
  \<^verbatim>\<open>"file"\<close> holding \<^verbatim>\<open>None\<close>, its only value in the program.
\<close>

record result =
  r_files :: "string list option"
  r_file :: "unit option"
  r_success :: bool
  r_msg :: string

text \<open>
  One job. \<open>Inl\<close> is an exception that leaves \<^verbatim>\<open>process_files\<close>: only the upload
  is inside a \<^verbatim>\<open>try\<close>, and \<^verbatim>\<open>download_document\<close> lets the errors of the output
  file through. The poll uses the default \<^verbatim>\<open>timeout_sec=60\<close>.
\<close>

definition process_files ::
  "env \<Rightarrow> path list \<Rightarrow> string \<Rightarrow> path \<Rightarrow> world \<Rightarrow> (exn + result) \<times> world" where
  "process_files e files watermark output_file_path w =
     (let result = \<lparr>r_files = Some (map path_name files), r_file = None,
                     r_success = False, r_msg = []\<rparr>
      in case upload_files e files watermark w of
           (Inl ex, w1) \<Rightarrow> (Inr (result\<lparr>r_msg := ''upload failed: '' @ str_exn ex\<rparr>), w1)
         | (Inr token, w1) \<Rightarrow>
             (case poll_until_ready e token 60 w1 of
                (url, w2) \<Rightarrow>
                  if \<not> truthy url then (Inr (result\<lparr>r_msg := ''timeout''\<rparr>), w2)
                  else
                    (case download_document e token output_file_path w2 of
                       (Inl ex, w3) \<Rightarrow> (Inl ex, w3)
                     | (Inr ok, w3) \<Rightarrow>
                         if \<not> ok then (Inr (result\<lparr>r_msg := ''download failed''\<rparr>), w3)
                         else (Inr (result\<lparr>r_success := True, r_msg := output_file_path\<rparr>),
                               w3))))"

section \<open>main\<close>

text \<open>The dictionary recorded when \<^verbatim>\<open>future.result()\<close> raises.\<close>

definition worker_error :: "exn \<Rightarrow> result" where
  "worker_error ex =
     \<lparr>r_files = None, r_file = Some (), r_success = False,
      r_msg = ''error: '' @ str_exn ex\<rparr>"

text \<open>
  The loop over \<^verbatim>\<open>as_completed(futures)\<close>, given the files in the order their futures
  complete. Each future runs \<^verbatim>\<open>process_files\<close> on one file, writing to the file's name
  under the output directory. The jobs run in threads; the model runs them one after
  the other in completion order.
\<close>

fun collect ::
  "env \<Rightarrow> path list \<Rightarrow> string \<Rightarrow> path \<Rightarrow> result list \<Rightarrow> world \<Rightarrow> result list \<times> world" where
  "collect e [] watermark output_dir results w = (results, w)"
| "collect e (file # rest) watermark output_dir results w =
     (case process_files e [file] watermark (path_join output_dir (path_name file)) w of
        (Inl ex, w1) \<Rightarrow> collect e rest watermark output_dir (results @ [worker_error ex]) w1
      | (Inr r, w1) \<Rightarrow> collect e rest watermark output_dir (results @ [r]) w1)"

text \<open>
  The two modes (the \<^verbatim>\<open>if aggregate\<close> of \<^verbatim>\<open>main\<close>). \<open>Inl\<close> is an exception that
  leaves \<^verbatim>\<open>main\<close>: the aggregate call of \<^verbatim>\<open>process_files\<close> stands in no \<^verbatim>\<open>try\<close>.
\<close>

definition run_jobs ::
  "env \<Rightarrow> path list \<Rightarrow> string \<Rightarrow> path \<Rightarrow> bool \<Rightarrow> string \<Rightarrow> world
     \<Rightarrow> (exn + result list) \<times> world" where
  "run_jobs e files watermark output_dir aggregate aggregate_output w =
     (if aggregate then
        (case process_files e files watermark (path_join output_dir aggregate_output) w of
           (Inl ex, w1) \<Rightarrow> (Inl ex, w1)
         | (Inr r, w1) \<Rightarrow> (Inr [r], w1))
      else
        (case collect e (as_completed e files) watermark output_dir [] w of
           (results, w1) \<Rightarrow> (Inr results, w1)))"

text \<open>The marks of the report, as the bytes of their UTF-8 encoding.\<close>

definition check_mark :: string where
  "check_mark = [CHR 0xE2, CHR 0x9C, CHR 0x85]"

definition cross_mark :: string where
  "cross_mark = [CHR 0xE2, CHR 0x9D, CHR 0x8C]"

text \<open>
  One line of the report. \<^verbatim>\<open>r.get("files")\<close> is false for a missing key and for an
  empty list.
\<close>

definition report_line :: "result \<Rightarrow> string" where
  "report_line r =
     (let file_names =
            (case r_files r of
               None \<Rightarrow> ''???''
             | Some names \<Rightarrow> if names \<noteq> [] then join '','' names else ''???'')
      in if r_success r then ''  '' @ check_mark @ '' '' @ file_names @ '': '' @ r_msg r
         else ''  '' @ cross_mark @ '' '' @ file_names @ '': '' @ r_msg r)"

text \<open>\<^verbatim>\<open>name in line\<close>: the name stands somewhere in the line.\<close>

fun starts_with :: "string \<Rightarrow> string \<Rightarrow> bool" where
  "starts_with [] line = True"
| "starts_with (c # cs) [] = False"
| "starts_with (c # cs) (d # ds) = (c = d \<and> starts_with cs ds)"

fun occurs_in :: "string \<Rightarrow> string \<Rightarrow> bool" where
  "occurs_in name [] = (name = [])"
| "occurs_in name (d # ds) = (starts_with name (d # ds) \<or> occurs_in name ds)"

text \<open>
  \<^verbatim>\<open>main\<close> from the list of supported files on: the results and the lines of the
  report, or the exception that ends the run. With no file nothing is processed and
  nothing is reported.
\<close>

definition main ::
  "env \<Rightarrow> path list \<Rightarrow> string \<Rightarrow> path \<Rightarrow> bool \<Rightarrow> string \<Rightarrow> world
     \<Rightarrow> (exn + result list \<times> string list) \<times> world" where
  "main e files watermark output_dir aggregate aggregate_output w =
     (if files = [] then (Inr ([], []), w)
      else
        (case run_jobs e files watermark output_dir aggregate aggregate_output w of
           (Inl ex, w1) \<Rightarrow> (Inl ex, w1)
         | (Inr results, w1) \<Rightarrow> (Inr (results, map report_line results), w1)))"

section \<open>Concrete environments\<close>

text \<open>
  A service that accepts the upload with token \<open>tok\<close>, reports the document ready at
  the first poll and serves its bytes, on a machine where every file opens.
\<close>

definition ok_response :: "json \<Rightarrow> response" where
  "ok_response d = \<lparr>status_error = None, json_body = Inr d, content = ''%PDF''\<rparr>"

definition env_ok :: env where
  "env_ok =
     \<lparr>open_rb = (\<lambda>p. None),
      close_raises = (\<lambda>p. False),
      post_files = (\<lambda>payload watermark. Reply (ok_response (JObj [(''token'', JStr ''tok'')]))),
      get_url = (\<lambda>token i. Reply (ok_response (JObj [(''url'', JStr ''https://x/doc'')]))),
      get_document = (\<lambda>token. Reply (ok_response JNull)),
      open_wb = (\<lambda>p. None),
      write_error = (\<lambda>p. None),
      as_completed = rev\<rparr>"

text \<open>The same, but the upload request is refused by the network.\<close>

definition env_refused :: env where
  "env_refused =
     env_ok\<lparr>post_files := (\<lambda>payload watermark. Raises (Exn ''ConnectionError'' ''refused''))\<rparr>"

text \<open>The same, but the upload is answered with an empty dictionary and no poll is ever ready.\<close>

definition env_no_token :: env where
  "env_no_token =
     env_ok\<lparr>post_files := (\<lambda>payload watermark. Reply (ok_response (JObj []))),
            get_url := (\<lambda>token i. Reply (ok_response (JObj [])))\<rparr>"

text \<open>The same, but no poll is ever ready.\<close>

definition env_pending :: env where
  "env_pending = env_ok\<lparr>get_url := (\<lambda>token i. Reply (ok_response (JObj [])))\<rparr>"

text \<open>The same, but the third poll answers with an empty locator, after two transport errors.\<close>

definition env_empty_url :: env where
  "env_empty_url =
     env_ok\<lparr>get_url := (\<lambda>token i.
        if i < 2 then Raises (Exn ''Timeout'' ''timed out'')
        else Reply (ok_response (JObj [(''url'', JStr [])])))\<rparr>"

text \<open>The same, but the download is answered with an error status.\<close>

definition env_not_found :: env where
  "env_not_found =
     env_ok\<lparr>get_document := (\<lambda>token.
        Reply \<lparr>status_error = Some ''404 Client Error'', json_body = Inl ''no JSON'',
               content = []\<rparr>)\<rparr>"

text \<open>The same, but no output file can be opened for writing.\<close>

definition env_read_only :: env where
  "env_read_only = env_ok\<lparr>open_wb := (\<lambda>p. Some ''Permission denied'')\<rparr>"

text \<open>
  The same, with the text that \<^verbatim>\<open>str\<close> gives for the \<^verbatim>\<open>PermissionError\<close> of
  \<^verbatim>\<open>open(out_path, "wb")\<close>: it ends with the \<^verbatim>\<open>repr\<close> of the path.
\<close>

definition env_denied :: env where
  "env_denied =
     env_ok\<lparr>open_wb := (\<lambda>p. Some (''[Errno 13] Permission denied: '' @ py_repr p))\<rparr>"

text \<open>The same, but the input file \<open>d/b.png\<close> cannot be opened.\<close>

definition env_missing_file :: env where
  "env_missing_file =
     env_ok\<lparr>open_rb := (\<lambda>p. if p = ''d/b.png'' then Some ''No such file'' else None)\<rparr>"

text \<open>An initial state with one file already at an output path, and one without.\<close>

definition world0 :: world where
  "world0 = \<lparr>fs = Map.empty, handles = {#}, trace = []\<rparr>"

definition world1 :: world where
  "world1 = \<lparr>fs = [''out/a.pdf'' \<mapsto> ''old''], handles = {#}, trace = []\<rparr>"

section \<open>What each step changes\<close>

lemma close_all_handles [simp]: "handles (close_all e fhs w) = handles w - mset fhs"
  by (induction fhs arbitrary: w) (simp_all add: fh_close_def)

lemma close_all_fs [simp]: "fs (close_all e fhs w) = fs w"
  by (induction fhs arbitrary: w) (simp_all add: fh_close_def)

lemma close_all_trace [simp]: "trace (close_all e fhs w) = trace w"
  by (induction fhs arbitrary: w) (simp_all add: fh_close_def)

lemma open_files_handles:
  "open_files e files payload fhs w = (res, fhs', w')
     \<Longrightarrow> handles w' + mset fhs = handles w + mset fhs'"
proof (induction files arbitrary: payload fhs w)
  case Nil
  then show ?case by simp
next
  case (Cons f rest)
  show ?case
  proof (cases "open_rb e f")
    case (Some m)
    with Cons.prems show ?thesis by simp
  next
    case None
    note opened = this
    show ?thesis
    proof (cases "CONTENT_TYPES (get_file_ext f)")
      case None
      with Cons.prems opened show ?thesis by (auto simp: Let_def)
    next
      case (Some ct)
      with Cons.prems opened have
        "open_files e rest (payload @ [(path_name f, f, ct)]) (fhs @ [f])
           (w\<lparr>handles := add_mset f (handles w)\<rparr>) = (res, fhs', w')"
        by (simp add: Let_def)
      from Cons.IH [OF this] show ?thesis by simp
    qed
  qed
qed

lemma open_files_fs:
  "open_files e files payload fhs w = (res, fhs', w') \<Longrightarrow> fs w' = fs w"
  by (induction files arbitrary: payload fhs w)
     (auto simp: Let_def split: option.splits)

lemma open_files_trace:
  "open_files e files payload fhs w = (res, fhs', w') \<Longrightarrow> trace w' = trace w"
  by (induction files arbitrary: payload fhs w)
     (auto simp: Let_def split: option.splits)

lemma upload_files_fs: "fs (snd (upload_files e files watermark w)) = fs w"
proof -
  obtain res fhs w1 where o: "open_files e files [] [] w = (res, fhs, w1)"
    by (cases "open_files e files [] [] w") auto
  show ?thesis
    by (cases res) (simp_all add: upload_files_def o open_files_fs [OF o] emit_def)
qed

lemma upload_files_calls:
  "poll_calls (snd (upload_files e files watermark w)) = poll_calls w \<and>
   fetch_calls (snd (upload_files e files watermark w)) = fetch_calls w"
proof -
  obtain res fhs w1 where o: "open_files e files [] [] w = (res, fhs, w1)"
    by (cases "open_files e files [] [] w") auto
  show ?thesis
    by (cases res)
       (simp_all add: upload_files_def o open_files_trace [OF o] emit_def
          poll_calls_def fetch_calls_def)
qed

lemma poll_loop_never:
  "(\<And>j. j < n \<Longrightarrow> poll_attempt (get_url e token (i + j)) = None)
     \<Longrightarrow> poll_loop e token n i w =
         (JNull, w\<lparr>trace := trace w @ concat (replicate n [EvPoll token, EvSleep 3])\<rparr>)"
proof (induction n arbitrary: i w)
  case 0
  then show ?case by simp
next
  case (Suc n)
  have first: "poll_attempt (get_url e token i) = None"
    using Suc.prems [of 0] by simp
  have rest: "\<And>j. j < n \<Longrightarrow> poll_attempt (get_url e token (Suc i + j)) = None"
    using Suc.prems [of "Suc _"] by simp
  show ?case
    by (simp add: first Suc.IH [OF rest] emit_def)
qed

lemma poll_loop_frame:
  "fs (snd (poll_loop e token n i w)) = fs w \<and>
   handles (snd (poll_loop e token n i w)) = handles w \<and>
   fetch_calls (snd (poll_loop e token n i w)) = fetch_calls w"
  by (induction n arbitrary: i w)
     (simp_all add: emit_def fetch_calls_def Let_def split: option.splits)

lemma poll_loop_ready_at:
  "(\<And>j. j < k \<Longrightarrow> poll_attempt (get_url e token (i + j)) = None)
     \<Longrightarrow> poll_attempt (get_url e token (i + k)) = Some v \<Longrightarrow> k < n
     \<Longrightarrow> poll_loop e token n i w =
         (v, w\<lparr>trace := trace w @ concat (replicate k [EvPoll token, EvSleep 3]) @ [EvPoll token]\<rparr>)"
proof (induction k arbitrary: i n w)
  case 0
  then obtain m where n: "n = Suc m" by (cases n) auto
  from 0 show ?case by (simp add: n emit_def)
next
  case (Suc k)
  then obtain m where n: "n = Suc m" and km: "k < m" by (cases n) auto
  have first: "poll_attempt (get_url e token i) = None"
    using Suc.prems(1) [of 0] by simp
  have rest: "\<And>j. j < k \<Longrightarrow> poll_attempt (get_url e token (Suc i + j)) = None"
    using Suc.prems(1) [of "Suc _"] by simp
  have last: "poll_attempt (get_url e token (Suc i + k)) = Some v"
    using Suc.prems(2) by simp
  show ?case
    by (simp add: n first Suc.IH [OF rest last km] emit_def)
qed

lemma never_ready_iff:
  "never_ready e token n \<longleftrightarrow> (\<forall>i<n. poll_attempt (get_url e token i) = None)"
  by (auto simp: never_ready_def list_all_iff)

section \<open>The steps of a job\<close>

lemma poll_until_ready_frame:
  "poll_until_ready e token t w = (url, w2)
     \<Longrightarrow> fs w2 = fs w \<and> handles w2 = handles w \<and> fetch_calls w2 = fetch_calls w"
  using poll_loop_frame [of e token "nat (t div 3)" 0 w]
  by (simp add: poll_until_ready_def)

lemma upload_files_frame:
  "upload_files e files watermark w = (res, w1)
     \<Longrightarrow> fs w1 = fs w \<and> poll_calls w1 = poll_calls w \<and> fetch_calls w1 = fetch_calls w"
  using upload_files_fs [of e files watermark w] upload_files_calls [of e files watermark w]
  by simp

lemma poll_calls_append:
  "poll_calls (w\<lparr>trace := trace w @ concat (replicate n [EvPoll token, EvSleep 3]) @ evs\<rparr>)
     = poll_calls w + n + length (filter is_poll evs)"
  by (induction n) (simp_all add: poll_calls_def)

lemma fetch_calls_append:
  "fetch_calls (w\<lparr>trace := trace w @ concat (replicate n [EvPoll token, EvSleep 3]) @ evs\<rparr>)
     = fetch_calls w + length (filter is_fetch evs)"
  by (induction n) (simp_all add: fetch_calls_def)

lemma poll_until_ready_never:
  assumes "never_ready e token (nat (t div 3))"
  shows "poll_until_ready e token t w =
           (JNull, w\<lparr>trace := trace w @ concat (replicate (nat (t div 3)) [EvPoll token, EvSleep 3])\<rparr>)"
  using assms poll_loop_never [of "nat (t div 3)" e token 0 w]
  by (simp add: poll_until_ready_def never_ready_iff)

section \<open>The job: upload failure\<close>

text \<open>
  Claim C5. When the upload of a job fails (\<^verbatim>\<open>upload_files\<close> raises), the job makes no
  poll attempt and no download request, and its result has \<^verbatim>\<open>success\<close> false and the
  message \<open>upload failed: \<close> followed by the text of the error.
\<close>

theorem upload_failure_outcome:
  assumes "upload_files e files watermark w = (Inl ex, w1)"
  shows "process_files e files watermark out w =
           (Inr \<lparr>r_files = Some (map path_name files), r_file = None, r_success = False,
                 r_msg = ''upload failed: '' @ str_exn ex\<rparr>, w1)
         \<and> poll_calls w1 = poll_calls w \<and> fetch_calls w1 = fetch_calls w"
  using assms upload_files_frame [OF assms]
  by (simp add: process_files_def)

section \<open>The job: the poll budget\<close>

text \<open>
  Claim C3. When none of the poll attempts of a job reports the document ready, the loop
  makes exactly \<open>timeout_sec div 3\<close> attempts, each followed by a sleep of 3 seconds, and
  returns \<^verbatim>\<open>None\<close>; with the timeout of 60 that \<^verbatim>\<open>process_files\<close> uses these are 20
  attempts, the result's message is exactly \<open>timeout\<close>, and no download request is made.
\<close>

theorem poll_timeout_outcome:
  assumes up: "upload_files e files watermark w = (Inr token, w1)"
    and nonneg: "0 \<le> t"
    and never: "never_ready e token (nat (t div 3))"
  shows "(\<exists>w2. poll_until_ready e token t w1 = (JNull, w2)
            \<and> trace w2 = trace w1 @ concat (replicate (nat (t div 3)) [EvPoll token, EvSleep 3])
            \<and> int (poll_calls w2) = int (poll_calls w) + t div 3
            \<and> fetch_calls w2 = fetch_calls w
            \<and> (t = 60 \<longrightarrow>
                 poll_calls w2 = poll_calls w + 20 \<and>
                 process_files e files watermark out w =
                   (Inr \<lparr>r_files = Some (map path_name files), r_file = None,
                         r_success = False, r_msg = ''timeout''\<rparr>, w2)))"
proof -
  let ?n = "nat (t div 3)"
  let ?w2 = "w1\<lparr>trace := trace w1 @ concat (replicate ?n [EvPoll token, EvSleep 3])\<rparr>"
  have p: "poll_until_ready e token t w1 = (JNull, ?w2)"
    by (rule poll_until_ready_never [OF never])
  have fr: "poll_calls w1 = poll_calls w" "fetch_calls w1 = fetch_calls w"
    using upload_files_frame [OF up] by simp_all
  have pc: "poll_calls ?w2 = poll_calls w + ?n"
    using poll_calls_append [of w1 ?n token "[]"] fr by simp
  have fc: "fetch_calls ?w2 = fetch_calls w"
    using fetch_calls_append [of w1 ?n token "[]"] fr by simp
  have cnt: "int (poll_calls ?w2) = int (poll_calls w) + t div 3"
    using pc nonneg by simp
  have job: "t = 60 \<Longrightarrow> process_files e files watermark out w =
      (Inr \<lparr>r_files = Some (map path_name files), r_file = None,
            r_success = False, r_msg = ''timeout''\<rparr>, ?w2)"
    using p by (simp add: process_files_def up)
  have twenty: "t = 60 \<Longrightarrow> poll_calls ?w2 = poll_calls w + 20"
    using pc by simp
  show ?thesis
    using p cnt fc job twenty by simp
qed

section \<open>The job: an empty locator\<close>

text \<open>
  Claim C9. When a poll attempt within the budget gets a successful answer whose
  \<^verbatim>\<open>"url"\<close> field is the empty string (the attempts before it not being ready), the
  loop returns that empty string at once, and the job still ends with the message
  \<open>timeout\<close> and without a download request: its result is the one of an exhausted budget.
\<close>

theorem empty_url_reported_as_timeout:
  assumes up: "upload_files e files watermark w = (Inr token, w1)"
    and before: "never_ready e token k"
    and budget: "k < 20"
    and answer: "get_url e token k = Reply r"
    and status: "status_error r = None"
    and body: "json_body r = Inr (JObj kvs)"
    and url: "map_of kvs ''url'' = Some (JStr [])"
  shows "\<exists>w2. poll_until_ready e token 60 w1 = (JStr [], w2)
           \<and> poll_calls w2 = poll_calls w + k + 1
           \<and> fetch_calls w2 = fetch_calls w
           \<and> process_files e files watermark out w =
               (Inr \<lparr>r_files = Some (map path_name files), r_file = None,
                     r_success = False, r_msg = ''timeout''\<rparr>, w2)"
proof -
  let ?w2 = "w1\<lparr>trace := trace w1 @ concat (replicate k [EvPoll token, EvSleep 3]) @ [EvPoll token]\<rparr>"
  have att: "poll_attempt (get_url e token (0 + k)) = Some (JStr [])"
    by (simp add: poll_attempt_def answer status body url)
  have bef: "\<And>j. j < k \<Longrightarrow> poll_attempt (get_url e token (0 + j)) = None"
    using before by (simp add: never_ready_iff)
  have p: "poll_until_ready e token 60 w1 = (JStr [], ?w2)"
    using poll_loop_ready_at [OF bef att, of 20 w1] budget
    by (simp add: poll_until_ready_def)
  have fr: "poll_calls w1 = poll_calls w" "fetch_calls w1 = fetch_calls w"
    using upload_files_frame [OF up] by simp_all
  have pc: "poll_calls ?w2 = poll_calls w + k + 1"
    using poll_calls_append [of w1 k token "[EvPoll token]"] fr by simp
  have fc: "fetch_calls ?w2 = fetch_calls w"
    using fetch_calls_append [of w1 k token "[EvPoll token]"] fr by simp
  have job: "process_files e files watermark out w =
      (Inr \<lparr>r_files = Some (map path_name files), r_file = None,
            r_success = False, r_msg = ''timeout''\<rparr>, ?w2)"
    using p by (simp add: process_files_def up)
  show ?thesis
    using p pc fc job by simp
qed

section \<open>The job: download failure\<close>

text \<open>
  Claim C6. When the download request of a job fails (a transport error or an error
  status) after a poll that returned a locator, the result has \<^verbatim>\<open>success\<close> false and the
  message exactly \<open>download failed\<close>, and no file is written: the file system is as it
  was before the job, the file at the output path included.
\<close>

theorem download_failure_outcome:
  assumes up: "upload_files e files watermark w = (Inr token, w1)"
    and poll: "poll_until_ready e token 60 w1 = (url, w2)"
    and ready: "truthy url"
    and fails: "fetch_fails (get_document e token)"
  shows "\<exists>w3. process_files e files watermark out w =
               (Inr \<lparr>r_files = Some (map path_name files), r_file = None,
                     r_success = False, r_msg = ''download failed''\<rparr>, w3)
           \<and> fs w3 = fs w
           \<and> fetch_calls w3 = fetch_calls w + 1"
proof -
  have d: "download_document e token out w2 = (Inr False, emit (EvFetch token) w2)"
    using fails
    by (auto simp: download_document_def fetch_fails_def Let_def split: reply.splits)
  have fr1: "fs w1 = fs w" "fetch_calls w1 = fetch_calls w"
    using upload_files_frame [OF up] by simp_all
  have fr2: "fs w2 = fs w1" "fetch_calls w2 = fetch_calls w1"
    using poll_until_ready_frame [OF poll] by simp_all
  have job: "process_files e files watermark out w =
      (Inr \<lparr>r_files = Some (map path_name files), r_file = None,
            r_success = False, r_msg = ''download failed''\<rparr>, emit (EvFetch token) w2)"
    by (simp add: process_files_def up poll ready d)
  show ?thesis
    using job fr1 fr2 by (simp add: emit_def fetch_calls_def)
qed

lemma download_document_True:
  "download_document e token out w2 = (Inr True, w3)
     \<Longrightarrow> \<exists>resp. get_document e token = Reply resp \<and> status_error resp = None
           \<and> open_wb e out = None \<and> write_error e out = None
           \<and> fs w3 = (fs w2)(out \<mapsto> content resp)"
  by (auto simp: download_document_def Let_def emit_def split: reply.splits option.splits)

section \<open>The job: the success path\<close>

text \<open>
  Claim C7. A result with \<^verbatim>\<open>success\<close> true is produced only when the upload returned,
  the poll returned a locator, the download request succeeded and the bytes it returned
  were written to the output path, replacing what was there; the message is then the
  output path.
\<close>

theorem success_only_after_all_steps:
  assumes run: "process_files e files watermark out w = (Inr r, w3)"
    and ok: "r_success r"
  shows "\<exists>token w1 url w2 resp.
           upload_files e files watermark w = (Inr token, w1)
         \<and> poll_until_ready e token 60 w1 = (url, w2) \<and> truthy url
         \<and> get_document e token = Reply resp \<and> status_error resp = None
         \<and> open_wb e out = None \<and> write_error e out = None
         \<and> fs w3 = (fs w)(out \<mapsto> content resp)
         \<and> r = \<lparr>r_files = Some (map path_name files), r_file = None,
                 r_success = True, r_msg = out\<rparr>"
proof -
  obtain u w1 where up: "upload_files e files watermark w = (u, w1)"
    by (cases "upload_files e files watermark w") auto
  show ?thesis
  proof (cases u)
    case (Inl ex)
    with run ok up show ?thesis by (auto simp: process_files_def)
  next
    case (Inr token)
    note tok = this
    obtain url w2 where poll: "poll_until_ready e token 60 w1 = (url, w2)"
      by (cases "poll_until_ready e token 60 w1") auto
    show ?thesis
    proof (cases "truthy url")
      case False
      with run ok up tok poll show ?thesis by (auto simp: process_files_def)
    next
      case True
      obtain d w3' where dl: "download_document e token out w2 = (d, w3')"
        by (cases "download_document e token out w2") auto
      from run ok up tok poll True dl
      have fin: "d = Inr True" "w3' = w3"
        and res: "r = \<lparr>r_files = Some (map path_name files), r_file = None,
                        r_success = True, r_msg = out\<rparr>"
        by (auto simp: process_files_def Let_def split: sum.splits if_splits)
      from download_document_True [of e token out w2 w3] dl fin
      obtain resp where got: "get_document e token = Reply resp" "status_error resp = None"
        "open_wb e out = None" "write_error e out = None"
        "fs w3 = (fs w2)(out \<mapsto> content resp)"
        by auto
      have "fs w2 = fs w"
        using upload_files_frame [OF up] poll_until_ready_frame [OF poll] by simp
      with got res up tok poll True show ?thesis by auto
    qed
  qed
qed

section \<open>The scheduler: the fallback result\<close>

text \<open>
  Claim C10, as amended. In per-file mode, when the worker of a file raises, the result
  recorded for it has no \<^verbatim>\<open>"files"\<close> key (it holds \<^verbatim>\<open>None\<close> under \<^verbatim>\<open>"file"\<close>), so the
  line of the report shows \<open>???\<close> where the file's name would stand. The line is that
  mark followed by \<open>error: \<close> and the text of the error, so the report names the file
  only where the error's own text does.
\<close>

theorem worker_error_reports_unknown_name:
  assumes "process_files e [f] watermark (path_join output_dir (path_name f)) w = (Inl ex, w1)"
  shows "collect e (f # rest) watermark output_dir results w =
           collect e rest watermark output_dir (results @ [worker_error ex]) w1
         \<and> r_files (worker_error ex) = None
         \<and> r_file (worker_error ex) = Some ()
         \<and> r_success (worker_error ex) = False
         \<and> r_msg (worker_error ex) = ''error: '' @ str_exn ex
         \<and> report_line (worker_error ex) =
             ''  '' @ cross_mark @ '' ???: error: '' @ str_exn ex"
  using assms by (simp add: worker_error_def report_line_def)

section \<open>The upload: file handles\<close>

text \<open>
  Claim C8. Every file handle that \<^verbatim>\<open>upload_files\<close> opens is closed when the call ends,
  on every path: the handles open after the call are those open before it, whether the
  call returns a token, a file fails to open, a content type is missing or the request
  fails.
\<close>

theorem upload_files_releases_handles:
  "handles (snd (upload_files e files watermark w)) = handles w"
proof -
  obtain res fhs w1 where o: "open_files e files [] [] w = (res, fhs, w1)"
    by (cases "open_files e files [] [] w") auto
  from open_files_handles [OF o] have h: "handles w1 = handles w + mset fhs" by simp
  show ?thesis
    by (cases res) (simp_all add: upload_files_def o h emit_def)
qed

section \<open>Polling, the scheduler and the upload request\<close>

lemma poll_until_ready_at:
  assumes "never_ready e token k"
    and "poll_attempt (get_url e token k) = Some v"
    and "k < nat (t div 3)"
  shows "poll_until_ready e token t w =
           (v, w\<lparr>trace := trace w @ concat (replicate k [EvPoll token, EvSleep 3]) @ [EvPoll token]\<rparr>)"
proof -
  have bef: "\<And>j. j < k \<Longrightarrow> poll_attempt (get_url e token (0 + j)) = None"
    using assms(1) by (simp add: never_ready_iff)
  have att: "poll_attempt (get_url e token (0 + k)) = Some v"
    using assms(2) by simp
  show ?thesis
    using poll_loop_ready_at [OF bef att assms(3), of w]
    by (simp add: poll_until_ready_def)
qed

lemma never_ready_0: "never_ready e token 0"
  by (simp add: never_ready_def)

lemma collect_length:
  "length (fst (collect e completed watermark output_dir results w)) =
     length results + length completed"
proof (induction completed arbitrary: results w)
  case Nil
  then show ?case by simp
next
  case (Cons f rest)
  obtain res w1 where
    job: "process_files e [f] watermark (path_join output_dir (path_name f)) w = (res, w1)"
    by (cases "process_files e [f] watermark (path_join output_dir (path_name f)) w") auto
  show ?case
    by (cases res) (simp_all add: job Cons.IH)
qed

lemma per_file_one_result_each:
  assumes "mset (as_completed e files) = mset files"
  shows "\<exists>results w1.
           run_jobs e files watermark output_dir False aggregate_output w = (Inr results, w1)
         \<and> length results = length files"
proof -
  have "length (as_completed e files) = length files"
    using assms by (metis size_mset)
  then show ?thesis
    using collect_length [of e "as_completed e files" watermark output_dir "[]" w]
    by (auto simp: run_jobs_def split: prod.splits)
qed

lemma aggregate_one_result:
  assumes "process_files e files watermark (path_join output_dir aggregate_output) w = (Inr r, w1)"
  shows "run_jobs e files watermark output_dir True aggregate_output w = (Inr [r], w1)"
  using assms by (simp add: run_jobs_def)

lemma aggregate_error_leaves_main:
  assumes "process_files e files watermark (path_join output_dir aggregate_output) w = (Inl ex, w1)"
    and "files \<noteq> []"
  shows "main e files watermark output_dir True aggregate_output w = (Inl ex, w1)"
  using assms by (simp add: main_def run_jobs_def)

lemma post_request_transport_error:
  "post_files e payload watermark = Raises ex \<Longrightarrow> post_request e payload watermark = Inl ex"
  by (simp add: post_request_def)

lemma post_request_status_error:
  "post_files e payload watermark = Reply r \<Longrightarrow> status_error r = Some m
     \<Longrightarrow> post_request e payload watermark = Inl (Exn ''HTTPError'' m)"
  by (simp add: post_request_def)

lemma post_request_missing_token:
  "post_files e payload watermark = Reply r \<Longrightarrow> status_error r = None
     \<Longrightarrow> json_body r = Inr (JObj kvs) \<Longrightarrow> map_of kvs ''token'' = None
     \<Longrightarrow> post_request e payload watermark = Inr JNull"
  by (simp add: post_request_def get_token_def)

lemmas eval_defs =
  upload_files_def get_file_ext_def path_suffix_def path_name_def lower_char_def
  CONTENT_TYPES_def fh_close_def emit_def post_request_def ok_response_def get_token_def
  world0_def world1_def path_join_def posix_join_def path_str_def path_root_def Let_def

lemmas env_defs =
  env_ok_def env_refused_def env_no_token_def env_pending_def env_empty_url_def
  env_not_found_def env_read_only_def env_missing_file_def env_denied_def

theorem upload_failure_outcome_witness:
  "upload_files env_refused [''d/a.pdf''] ''wm'' world0 =
     (Inl (Exn ''ConnectionError'' ''refused''), world0\<lparr>trace := [EvPost [''a.pdf''] ''wm'']\<rparr>)
   \<and> fst (process_files env_refused [''d/a.pdf''] ''wm'' ''out/a.pdf'' world0) =
       Inr \<lparr>r_files = Some [''a.pdf''], r_file = None, r_success = False,
            r_msg = ''upload failed: refused''\<rparr>
   \<and> poll_calls (snd (process_files env_refused [''d/a.pdf''] ''wm'' ''out/a.pdf'' world0)) = 0
   \<and> fetch_calls (snd (process_files env_refused [''d/a.pdf''] ''wm'' ''out/a.pdf'' world0)) = 0"
proof -
  have h: "upload_files env_refused [''d/a.pdf''] ''wm'' world0 =
     (Inl (Exn ''ConnectionError'' ''refused''), world0\<lparr>trace := [EvPost [''a.pdf''] ''wm'']\<rparr>)"
    by (simp add: eval_defs env_defs)
  have z: "poll_calls world0 = 0" "fetch_calls world0 = 0"
    by (simp_all add: poll_calls_def fetch_calls_def world0_def)
  show ?thesis
    using upload_failure_outcome [OF h, of "''out/a.pdf''"] h z
    by (simp add: path_name_def)
qed

theorem poll_timeout_outcome_witness:
  "upload_files env_pending [''d/a.pdf''] ''wm'' world0 =
     (Inr (JStr ''tok''), world0\<lparr>trace := [EvPost [''a.pdf''] ''wm'']\<rparr>)
   \<and> never_ready env_pending (JStr ''tok'') 20
   \<and> fst (process_files env_pending [''d/a.pdf''] ''wm'' ''out/a.pdf'' world0) =
       Inr \<lparr>r_files = Some [''a.pdf''], r_file = None, r_success = False, r_msg = ''timeout''\<rparr>
   \<and> poll_calls (snd (process_files env_pending [''d/a.pdf''] ''wm'' ''out/a.pdf'' world0)) = 20
   \<and> fetch_calls (snd (process_files env_pending [''d/a.pdf''] ''wm'' ''out/a.pdf'' world0)) = 0"
proof -
  have h: "upload_files env_pending [''d/a.pdf''] ''wm'' world0 =
     (Inr (JStr ''tok''), world0\<lparr>trace := [EvPost [''a.pdf''] ''wm'']\<rparr>)"
    by (simp add: eval_defs env_defs)
  have t: "(0::int) \<le> 60" by simp
  have n: "never_ready env_pending (JStr ''tok'') (nat (60 div 3))"
    by (simp add: never_ready_def list_all_iff poll_attempt_def env_defs ok_response_def)
  have z: "poll_calls world0 = 0" "fetch_calls world0 = 0"
    by (simp_all add: poll_calls_def fetch_calls_def world0_def)
  show ?thesis
    using poll_timeout_outcome [OF h t n, of "''out/a.pdf''"] h n z
    by (auto simp: path_name_def)
qed

theorem empty_url_reported_as_timeout_witness:
  "upload_files env_empty_url [''d/a.pdf''] ''wm'' world0 =
     (Inr (JStr ''tok''), world0\<lparr>trace := [EvPost [''a.pdf''] ''wm'']\<rparr>)
   \<and> never_ready env_empty_url (JStr ''tok'') 2
   \<and> get_url env_empty_url (JStr ''tok'') 2 = Reply (ok_response (JObj [(''url'', JStr [])]))
   \<and> fst (process_files env_empty_url [''d/a.pdf''] ''wm'' ''out/a.pdf'' world0) =
       Inr \<lparr>r_files = Some [''a.pdf''], r_file = None, r_success = False, r_msg = ''timeout''\<rparr>
   \<and> poll_calls (snd (process_files env_empty_url [''d/a.pdf''] ''wm'' ''out/a.pdf'' world0)) = 3
   \<and> fetch_calls (snd (process_files env_empty_url [''d/a.pdf''] ''wm'' ''out/a.pdf'' world0)) = 0"
proof -
  have h: "upload_files env_empty_url [''d/a.pdf''] ''wm'' world0 =
     (Inr (JStr ''tok''), world0\<lparr>trace := [EvPost [''a.pdf''] ''wm'']\<rparr>)"
    by (simp add: eval_defs env_defs)
  have n: "never_ready env_empty_url (JStr ''tok'') 2"
    by (simp add: never_ready_def list_all_iff poll_attempt_def env_defs)
  have b: "(2::nat) < 20" by simp
  have g: "get_url env_empty_url (JStr ''tok'') 2 = Reply (ok_response (JObj [(''url'', JStr [])]))"
    by (simp add: env_defs)
  have s: "status_error (ok_response (JObj [(''url'', JStr [])])) = None"
    by (simp add: ok_response_def)
  have j: "json_body (ok_response (JObj [(''url'', JStr [])])) = Inr (JObj [(''url'', JStr [])])"
    by (simp add: ok_response_def)
  have u: "map_of [(''url'', JStr [])] ''url'' = Some (JStr [])" by simp
  have z: "poll_calls world0 = 0" "fetch_calls world0 = 0"
    by (simp_all add: poll_calls_def fetch_calls_def world0_def)
  show ?thesis
    using empty_url_reported_as_timeout [OF h n b g s j u, of "''out/a.pdf''"] h n g z
    by (auto simp: path_name_def)
qed

lemma upload_one_eval:
  assumes "open_rb e = (\<lambda>p. None)"
    and "post_files e = (\<lambda>payload watermark. Reply (ok_response (JObj [(''token'', JStr ''tok'')])))"
  shows "upload_files e [''d/a.pdf''] ''wm'' w =
           (Inr (JStr ''tok''), w\<lparr>trace := trace w @ [EvPost [''a.pdf''] ''wm'']\<rparr>)"
  by (simp add: eval_defs assms)

lemma poll_first_eval:
  assumes "get_url e = (\<lambda>token i. Reply (ok_response (JObj [(''url'', JStr ''https://x/doc'')])))"
  shows "poll_until_ready e token 60 w =
           (JStr ''https://x/doc'', w\<lparr>trace := trace w @ [EvPoll token]\<rparr>)"
proof -
  have a: "poll_attempt (get_url e token 0) = Some (JStr ''https://x/doc'')"
    by (simp add: poll_attempt_def assms ok_response_def)
  have b: "0 < nat (60 div 3)" by simp
  show ?thesis
    using poll_until_ready_at [OF never_ready_0 a b, of w] by simp
qed

lemma download_ok_eval:
  "download_document env_ok token out w =
     (Inr True, w\<lparr>fs := (fs w)(out \<mapsto> ''%PDF''), trace := trace w @ [EvFetch token]\<rparr>)"
  by (simp add: download_document_def env_defs ok_response_def emit_def)

lemma download_read_only_eval:
  "download_document env_read_only token out w =
     (Inl (Exn ''OSError'' ''Permission denied''), w\<lparr>trace := trace w @ [EvFetch token]\<rparr>)"
  by (simp add: download_document_def env_defs ok_response_def emit_def)

lemma process_read_only_eval:
  "process_files env_read_only [''d/a.pdf''] ''wm'' out w =
     (Inl (Exn ''OSError'' ''Permission denied''),
      w\<lparr>trace := trace w @ [EvPost [''a.pdf''] ''wm'', EvPoll (JStr ''tok''), EvFetch (JStr ''tok'')]\<rparr>)"
proof -
  have u: "upload_files env_read_only [''d/a.pdf''] ''wm'' w =
      (Inr (JStr ''tok''), w\<lparr>trace := trace w @ [EvPost [''a.pdf''] ''wm'']\<rparr>)"
    by (rule upload_one_eval) (simp_all add: env_defs)
  have p: "\<And>v. poll_until_ready env_read_only (JStr ''tok'') 60 v =
      (JStr ''https://x/doc'', v\<lparr>trace := trace v @ [EvPoll (JStr ''tok'')]\<rparr>)"
    by (rule poll_first_eval) (simp add: env_defs)
  show ?thesis
    by (simp add: process_files_def u p download_read_only_eval)
qed

theorem download_failure_outcome_witness:
  "upload_files env_not_found [''d/a.pdf''] ''wm'' world1 =
     (Inr (JStr ''tok''), world1\<lparr>trace := [EvPost [''a.pdf''] ''wm'']\<rparr>)
   \<and> fst (poll_until_ready env_not_found (JStr ''tok'') 60
            (world1\<lparr>trace := [EvPost [''a.pdf''] ''wm'']\<rparr>)) = JStr ''https://x/doc''
   \<and> fetch_fails (get_document env_not_found (JStr ''tok''))
   \<and> fst (process_files env_not_found [''d/a.pdf''] ''wm'' ''out/a.pdf'' world1) =
       Inr \<lparr>r_files = Some [''a.pdf''], r_file = None, r_success = False,
            r_msg = ''download failed''\<rparr>
   \<and> fs (snd (process_files env_not_found [''d/a.pdf''] ''wm'' ''out/a.pdf'' world1)) ''out/a.pdf''
       = Some ''old''"
proof -
  let ?w1 = "world1\<lparr>trace := [EvPost [''a.pdf''] ''wm'']\<rparr>"
  have h: "upload_files env_not_found [''d/a.pdf''] ''wm'' world1 = (Inr (JStr ''tok''), ?w1)"
    using upload_one_eval [of env_not_found world1] by (simp add: env_defs world1_def)
  have p: "poll_until_ready env_not_found (JStr ''tok'') 60 ?w1 =
      (JStr ''https://x/doc'', ?w1\<lparr>trace := trace ?w1 @ [EvPoll (JStr ''tok'')]\<rparr>)"
    by (rule poll_first_eval) (simp add: env_defs)
  have r: "truthy (JStr ''https://x/doc'')" by simp
  have f: "fetch_fails (get_document env_not_found (JStr ''tok''))"
    by (simp add: fetch_fails_def env_defs)
  have o: "fs world1 ''out/a.pdf'' = Some ''old''" by (simp add: world1_def)
  show ?thesis
    using download_failure_outcome [OF h p r f, of "''out/a.pdf''"] h p f o
    by (auto simp: path_name_def)
qed

theorem success_only_after_all_steps_witness:
  "process_files env_ok [''d/a.pdf''] ''wm'' ''out/a.pdf'' world1 =
     (Inr \<lparr>r_files = Some [''a.pdf''], r_file = None, r_success = True, r_msg = ''out/a.pdf''\<rparr>,
      world1\<lparr>fs := [''out/a.pdf'' \<mapsto> ''%PDF''],
             trace := [EvPost [''a.pdf''] ''wm'', EvPoll (JStr ''tok''), EvFetch (JStr ''tok'')]\<rparr>)
   \<and> (\<exists>token w1 url w2 resp.
         upload_files env_ok [''d/a.pdf''] ''wm'' world1 = (Inr token, w1)
       \<and> poll_until_ready env_ok token 60 w1 = (url, w2) \<and> truthy url
       \<and> get_document env_ok token = Reply resp \<and> status_error resp = None
       \<and> open_wb env_ok ''out/a.pdf'' = None \<and> write_error env_ok ''out/a.pdf'' = None
       \<and> [''out/a.pdf'' \<mapsto> ''%PDF''] = (fs world1)(''out/a.pdf'' \<mapsto> content resp))"
proof -
  let ?r = "\<lparr>r_files = Some [''a.pdf''], r_file = None, r_success = True, r_msg = ''out/a.pdf''\<rparr>"
  let ?w3 = "world1\<lparr>fs := [''out/a.pdf'' \<mapsto> ''%PDF''],
      trace := [EvPost [''a.pdf''] ''wm'', EvPoll (JStr ''tok''), EvFetch (JStr ''tok'')]\<rparr>"
  have u: "\<And>v. upload_files env_ok [''d/a.pdf''] ''wm'' v =
      (Inr (JStr ''tok''), v\<lparr>trace := trace v @ [EvPost [''a.pdf''] ''wm'']\<rparr>)"
    by (rule upload_one_eval) (simp_all add: env_defs)
  have p: "\<And>v. poll_until_ready env_ok (JStr ''tok'') 60 v =
      (JStr ''https://x/doc'', v\<lparr>trace := trace v @ [EvPoll (JStr ''tok'')]\<rparr>)"
    by (rule poll_first_eval) (simp add: env_defs)
  have run: "process_files env_ok [''d/a.pdf''] ''wm'' ''out/a.pdf'' world1 = (Inr ?r, ?w3)"
    by (simp add: process_files_def u p download_ok_eval path_name_def world1_def)
  have ok: "r_success ?r" by simp
  have f: "fs ?w3 = [''out/a.pdf'' \<mapsto> ''%PDF'']" by simp
  show ?thesis
    using success_only_after_all_steps [OF run ok] run unfolding f by auto
qed

lemma process_denied_eval:
  "process_files env_denied [''d/a.pdf''] ''wm'' out w =
     (Inl (Exn ''OSError'' (''[Errno 13] Permission denied: '' @ py_repr out)),
      w\<lparr>trace := trace w @ [EvPost [''a.pdf''] ''wm'', EvPoll (JStr ''tok''), EvFetch (JStr ''tok'')]\<rparr>)"
proof -
  have u: "upload_files env_denied [''d/a.pdf''] ''wm'' w =
      (Inr (JStr ''tok''), w\<lparr>trace := trace w @ [EvPost [''a.pdf''] ''wm'']\<rparr>)"
    by (rule upload_one_eval) (simp_all add: env_defs)
  have p: "\<And>v. poll_until_ready env_denied (JStr ''tok'') 60 v =
      (JStr ''https://x/doc'', v\<lparr>trace := trace v @ [EvPoll (JStr ''tok'')]\<rparr>)"
    by (rule poll_first_eval) (simp add: env_defs)
  have d: "\<And>v. download_document env_denied (JStr ''tok'') out v =
      (Inl (Exn ''OSError'' (''[Errno 13] Permission denied: '' @ py_repr out)),
       v\<lparr>trace := trace v @ [EvFetch (JStr ''tok'')]\<rparr>)"
    by (simp add: download_document_def env_defs ok_response_def emit_def)
  show ?thesis
    by (simp add: process_files_def u p d)
qed

lemma out_path_eval: "path_join ''out'' (path_name ''d/a.pdf'') = ''out/a.pdf''"
  by (simp add: path_name_def path_join_def posix_join_def path_str_def path_root_def Let_def)

lemma repr_out_path_eval: "py_repr ''out/a.pdf'' = CHR 0x27 # ''out/a.pdf'' @ [CHR 0x27]"
  by (simp add: py_repr_def repr_char_def escape_codes_def Let_def)

theorem worker_error_reports_unknown_name_witness:
  "process_files env_denied [''d/a.pdf''] ''wm'' (path_join ''out'' (path_name ''d/a.pdf'')) world0 =
     (Inl (Exn ''OSError'' (''[Errno 13] Permission denied: '' @ py_repr ''out/a.pdf'')),
      world0\<lparr>trace := [EvPost [''a.pdf''] ''wm'', EvPoll (JStr ''tok''), EvFetch (JStr ''tok'')]\<rparr>)
   \<and> fst (collect env_denied [''d/a.pdf''] ''wm'' ''out'' [] world0) =
       [\<lparr>r_files = None, r_file = Some (), r_success = False,
         r_msg = ''error: [Errno 13] Permission denied: '' @ py_repr ''out/a.pdf''\<rparr>]
   \<and> report_line (worker_error
         (Exn ''OSError'' (''[Errno 13] Permission denied: '' @ py_repr ''out/a.pdf''))) =
       ''  '' @ cross_mark @ '' ???: error: [Errno 13] Permission denied: '' @ py_repr ''out/a.pdf''"
proof -
  let ?ex = "Exn ''OSError'' (''[Errno 13] Permission denied: '' @ py_repr ''out/a.pdf'')"
  let ?w3 = "world0\<lparr>trace := [EvPost [''a.pdf''] ''wm'', EvPoll (JStr ''tok''), EvFetch (JStr ''tok'')]\<rparr>"
  have run: "process_files env_denied [''d/a.pdf''] ''wm''
       (path_join ''out'' (path_name ''d/a.pdf'')) world0 = (Inl ?ex, ?w3)"
    by (simp add: process_denied_eval out_path_eval world0_def)
  show ?thesis
    using worker_error_reports_unknown_name [OF run, of "[]" "[]"] run
    by (simp add: worker_error_def)
qed

text \<open>
  Claim C10 as first stated adds that the file's identity is lost from the report. It is
  not always: the error of an output file that cannot be opened carries the path, so the
  line printed for \<open>d/a.pdf\<close> holds the name \<open>a.pdf\<close> after the \<open>???\<close>.
\<close>

theorem worker_error_line_names_file:
  "fst (main env_denied [''d/a.pdf''] ''wm'' ''out'' False ''agg.pdf'' world0) =
     Inr ([\<lparr>r_files = None, r_file = Some (), r_success = False,
            r_msg = ''error: [Errno 13] Permission denied: '' @ CHR 0x27 # ''out/a.pdf'' @ [CHR 0x27]\<rparr>],
          [''  '' @ cross_mark @ '' ???: error: [Errno 13] Permission denied: ''
             @ CHR 0x27 # ''out/a.pdf'' @ [CHR 0x27]])
   \<and> occurs_in (path_name ''d/a.pdf'')
        (''  '' @ cross_mark @ '' ???: error: [Errno 13] Permission denied: ''
           @ CHR 0x27 # ''out/a.pdf'' @ [CHR 0x27])"
proof -
  have c: "as_completed env_denied [''d/a.pdf''] = [''d/a.pdf'']"
    by (simp add: env_defs)
  have m: "fst (main env_denied [''d/a.pdf''] ''wm'' ''out'' False ''agg.pdf'' world0) =
     Inr ([\<lparr>r_files = None, r_file = Some (), r_success = False,
            r_msg = ''error: [Errno 13] Permission denied: '' @ CHR 0x27 # ''out/a.pdf'' @ [CHR 0x27]\<rparr>],
          [''  '' @ cross_mark @ '' ???: error: [Errno 13] Permission denied: ''
             @ CHR 0x27 # ''out/a.pdf'' @ [CHR 0x27]])"
    by (simp add: main_def run_jobs_def process_denied_eval c out_path_eval repr_out_path_eval
          worker_error_def report_line_def)
  have n: "path_name ''d/a.pdf'' = ''a.pdf''"
    by (simp add: path_name_def)
  have o: "occurs_in ''a.pdf''
        (''  '' @ cross_mark @ '' ???: error: [Errno 13] Permission denied: ''
           @ CHR 0x27 # ''out/a.pdf'' @ [CHR 0x27])"
    by (simp add: cross_mark_def)
  show ?thesis
    using m n o by simp
qed

theorem upload_files_releases_handles_witness:
  "upload_files env_missing_file [''d/a.pdf'', ''d/b.png'', ''d/c.pdf''] ''wm'' world0 =
     (Inl (Exn ''OSError'' ''No such file''), world0)
   \<and> handles (snd (upload_files env_missing_file [''d/a.pdf'', ''d/b.png'', ''d/c.pdf''] ''wm'' world0))
       = handles world0
   \<and> handles (snd (upload_files env_ok [''d/a.pdf'', ''d/b.png''] ''wm'' world0)) = {#}
   \<and> fst (open_files env_ok [''d/a.pdf'', ''d/b.png''] [] [] world0) =
       Inr [(''a.pdf'', ''d/a.pdf'', ''application/pdf''), (''b.png'', ''d/b.png'', ''image/png'')]
   \<and> handles (snd (snd (open_files env_ok [''d/a.pdf'', ''d/b.png''] [] [] world0))) =
       {#''d/a.pdf'', ''d/b.png''#}"
proof -
  have m: "upload_files env_missing_file [''d/a.pdf'', ''d/b.png'', ''d/c.pdf''] ''wm'' world0 =
     (Inl (Exn ''OSError'' ''No such file''), world0)"
    by (simp add: eval_defs env_defs)
  have o: "open_files env_ok [''d/a.pdf'', ''d/b.png''] [] [] world0 =
     (Inr [(''a.pdf'', ''d/a.pdf'', ''application/pdf''), (''b.png'', ''d/b.png'', ''image/png'')],
      [''d/a.pdf'', ''d/b.png''],
      world0\<lparr>handles := {#''d/a.pdf'', ''d/b.png''#}\<rparr>)"
    by (simp add: eval_defs env_defs)
  have z: "handles world0 = {#}" by (simp add: world0_def)
  show ?thesis
    using upload_files_releases_handles [of env_missing_file "[''d/a.pdf'', ''d/b.png'', ''d/c.pdf'']" "''wm''" world0]
      upload_files_releases_handles [of env_ok "[''d/a.pdf'', ''d/b.png'']" "''wm''" world0]
      m o z
    by simp
qed

section \<open>The upload: an answer without a token\<close>

text \<open>
  Claim C1 says that an upload answer without the \<^verbatim>\<open>"token"\<close> field makes the upload
  fail, so that the job reports \<open>upload failed: ...\<close> and never polls. The code returns
  \<^verbatim>\<open>None\<close> as the token instead: on an answer \<^verbatim>\<open>{}\<close> with a success status the upload
  returns \<open>JNull\<close>, and the job polls with that token 20 times and reports \<open>timeout\<close>.
  (A transport error and an error status do make the upload fail: see
  \<open>post_request_transport_error\<close> and \<open>post_request_status_error\<close>.)
\<close>

theorem missing_token_is_polled:
  "upload_files env_no_token [''d/a.pdf''] ''wm'' world0 =
     (Inr JNull, world0\<lparr>trace := [EvPost [''a.pdf''] ''wm'']\<rparr>)
   \<and> process_files env_no_token [''d/a.pdf''] ''wm'' ''out/a.pdf'' world0 =
       (Inr \<lparr>r_files = Some [''a.pdf''], r_file = None, r_success = False, r_msg = ''timeout''\<rparr>,
        world0\<lparr>trace := EvPost [''a.pdf''] ''wm'' # concat (replicate 20 [EvPoll JNull, EvSleep 3])\<rparr>)"
proof -
  let ?w1 = "world0\<lparr>trace := [EvPost [''a.pdf''] ''wm'']\<rparr>"
  have u: "upload_files env_no_token [''d/a.pdf''] ''wm'' world0 = (Inr JNull, ?w1)"
    by (simp add: eval_defs env_defs)
  have n: "never_ready env_no_token JNull (nat (60 div 3))"
    by (simp add: never_ready_def list_all_iff poll_attempt_def env_defs ok_response_def)
  have p: "poll_until_ready env_no_token JNull 60 ?w1 =
      (JNull, ?w1\<lparr>trace := trace ?w1 @ concat (replicate (nat (60 div 3)) [EvPoll JNull, EvSleep 3])\<rparr>)"
    by (rule poll_until_ready_never [OF n])
  show ?thesis
    using u p by (simp add: process_files_def path_name_def)
qed

section \<open>The scheduler: errors that leave a job\<close>

text \<open>
  Claim C2 says that in either mode an error that escapes a job becomes a result and
  never ends the run. In per-file mode it does (the second conjunct); in aggregate mode
  the call of \<^verbatim>\<open>process_files\<close> is unguarded, so an output file that cannot be opened
  ends \<^verbatim>\<open>main\<close> with the error and no result is recorded (the first conjunct).
\<close>

theorem aggregate_write_error_ends_run:
  "fst (main env_read_only [''d/a.pdf''] ''wm'' ''out'' True ''agg.pdf'' world0) =
     Inl (Exn ''OSError'' ''Permission denied'')
   \<and> fst (main env_read_only [''d/a.pdf''] ''wm'' ''out'' False ''agg.pdf'' world0) =
     Inr ([\<lparr>r_files = None, r_file = Some (), r_success = False,
            r_msg = ''error: Permission denied''\<rparr>],
          [''  '' @ cross_mark @ '' ???: error: Permission denied''])"
proof -
  have c: "as_completed env_read_only [''d/a.pdf''] = [''d/a.pdf'']"
    by (simp add: env_defs)
  show ?thesis
    by (simp add: main_def run_jobs_def process_read_only_eval c worker_error_def report_line_def)
qed

text \<open>
  Claim C4 says that aggregate mode produces exactly one result for every non-empty file
  list. With two files accepted and an output file that cannot be opened, aggregate mode
  produces none: \<^verbatim>\<open>main\<close> ends with the error. (Per-file mode does produce one result per
  file, \<open>per_file_one_result_each\<close>, and aggregate mode exactly one whenever the job
  returns, \<open>aggregate_one_result\<close>.)
\<close>

theorem aggregate_write_error_no_outcome:
  "main env_read_only [''d/a.pdf'', ''d/b.png''] ''wm'' ''out'' True ''agg.pdf'' world0 =
     (Inl (Exn ''OSError'' ''Permission denied''),
      world0\<lparr>trace := [EvPost [''a.pdf'', ''b.png''] ''wm'', EvPoll (JStr ''tok''),
                       EvFetch (JStr ''tok'')]\<rparr>)"
proof -
  let ?w1 = "world0\<lparr>trace := [EvPost [''a.pdf'', ''b.png''] ''wm'']\<rparr>"
  let ?w3 = "world0\<lparr>trace := [EvPost [''a.pdf'', ''b.png''] ''wm'', EvPoll (JStr ''tok''),
      EvFetch (JStr ''tok'')]\<rparr>"
  have u: "upload_files env_read_only [''d/a.pdf'', ''d/b.png''] ''wm'' world0 =
      (Inr (JStr ''tok''), ?w1)"
    by (simp add: eval_defs env_defs)
  have p: "\<And>v. poll_until_ready env_read_only (JStr ''tok'') 60 v =
      (JStr ''https://x/doc'', v\<lparr>trace := trace v @ [EvPoll (JStr ''tok'')]\<rparr>)"
    by (rule poll_first_eval) (simp add: env_defs)
  have run: "process_files env_read_only [''d/a.pdf'', ''d/b.png''] ''wm''
      (path_join ''out'' ''agg.pdf'') world0 = (Inl (Exn ''OSError'' ''Permission denied''), ?w3)"
    by (simp add: process_files_def u p download_read_only_eval)
  show ?thesis
    by (rule aggregate_error_leaves_main [OF run]) simp
qed

end
